theory Spec2Isabelle
  imports Main "HOL-Library.Word"
begin

section \<open>The tag store of build-index/tagstore/store.go\<close>

text \<open>
  The tag store maps tags to digests over two tiers: an on-disk file store and a remote
  backend, with a write-back task queued on every \<open>Put\<close>. The three collaborators of
  \<open>tagStore\<close> are Go interfaces; here each is a record of operations over a state
  \<open>'s\<close> that the operations read and update, so that every theorem about \<open>Put\<close> and
  \<open>Get\<close> holds for any behaviour of the collaborators.
\<close>

subsection \<open>Errors\<close>

text \<open>
  A Go \<open>error\<close> is compared by identity against a sentinel (\<open>err == ErrTagNotFound\<close>,
  \<open>err == backenderrors.ErrBlobNotFound\<close>) or classified by \<open>os.IsExist\<close> and
  \<open>os.IsNotExist\<close>. The two sentinels are constructors of their own; \<open>ErrExist\<close> and
  \<open>ErrNotExist\<close> are the errors that \<open>os.IsExist\<close> and \<open>os.IsNotExist\<close> accept; \<open>Errorf\<close>
  is any other error value, as \<open>fmt.Errorf\<close> and \<open>errors.New\<close> build it from a message.
\<close>

datatype error =
    ErrTagNotFound
  | ErrBlobNotFound
  | ErrExist string
  | ErrNotExist string
  | Errorf string

fun Error :: "error \<Rightarrow> string" where
  "Error ErrTagNotFound = ''tag not found''"
| "Error ErrBlobNotFound = ''blob not found''"
| "Error (ErrExist m) = m"
| "Error (ErrNotExist m) = m"
| "Error (Errorf m) = m"

fun IsExist :: "error \<Rightarrow> bool" where
  "IsExist (ErrExist m) = True"
| "IsExist e = False"

fun IsNotExist :: "error \<Rightarrow> bool" where
  "IsNotExist (ErrNotExist m) = True"
| "IsNotExist e = False"

subsection \<open>Digests\<close>

text \<open>
  Modelled from the spec: \<open>core.Digest\<close>, its \<open>String\<close> method and
  \<open>core.ParseSHA256Digest\<close> are not part of store.go. The spec gives a digest as a
  SHA-256 content hash with the canonical string encoding \<open>algo:hex\<close>: the structured
  form holds the algorithm and the hex string, \<open>String\<close> joins them with a colon, and
  the parser accepts exactly the strings \<open>sha256:\<close> followed by 64 hex characters.
  \<open>zero_Digest\<close> is Go's zero value \<open>core.Digest{}\<close>.
\<close>

datatype Digest = Digest (algo: string) (hex: string)

definition zero_Digest :: Digest where
  "zero_Digest = Digest [] []"

definition String :: "Digest \<Rightarrow> string" where
  "String d = algo d @ '':'' @ hex d"

definition is_hex :: "char \<Rightarrow> bool" where
  "is_hex c = (c \<in> set ''0123456789abcdefABCDEF'')"

definition valid_digest :: "Digest \<Rightarrow> bool" where
  "valid_digest d =
     (algo d = ''sha256'' \<and> length (hex d) = 64 \<and> list_all is_hex (hex d))"

definition ParseSHA256Digest :: "string \<Rightarrow> error + Digest" where
  "ParseSHA256Digest raw =
     (let a = takeWhile (\<lambda>c. c \<noteq> CHR '':'') raw;
          rest = dropWhile (\<lambda>c. c \<noteq> CHR '':'') raw
      in if rest = [] then Inl (Errorf ''invalid digest: expected algo:hex'')
         else if CHR '':'' \<in> set (tl rest) then Inl (Errorf ''invalid digest: expected algo:hex'')
         else if a \<noteq> ''sha256'' then Inl (Errorf ''invalid digest: algo is not sha256'')
         else if length (tl rest) \<noteq> 64
           then Inl (Errorf ''invalid digest: hex is not 64 characters long'')
         else if \<not> list_all is_hex (tl rest)
           then Inl (Errorf ''invalid digest: hex is not hexadecimal'')
         else Inr (Digest a (tl rest)))"

subsection \<open>Metadata and write-back tasks\<close>

text \<open>
  Modelled from the spec: \<open>metadata.NewPersist\<close> and \<open>writeback.NewTaskWithDelay\<close> are
  not part of store.go. The persist metadata is a boolean flag on a cache entry; a
  write-back task is the triple of source key, destination key and delay
  (\<open>time.Duration\<close>, a signed 64-bit count of nanoseconds).
\<close>

datatype Metadata = Persist bool

definition NewPersist :: "bool \<Rightarrow> Metadata" where
  "NewPersist b = Persist b"

record Task =
  sourceKey :: string
  destKey :: string
  delay :: "64 word"

definition NewTaskWithDelay :: "string \<Rightarrow> string \<Rightarrow> 64 word \<Rightarrow> Task" where
  "NewTaskWithDelay src dst dl = \<lparr>sourceKey = src, destKey = dst, delay = dl\<rparr>"

subsection \<open>The collaborators\<close>

text \<open>
  \<open>store.FileReader\<close>: \<open>ReadAll\<close> is what \<open>io.Copy(&b, f)\<close> obtains from the reader, the
  bytes copied and the error it ended with; \<open>Close\<close> is the deferred \<open>f.Close()\<close>, whose
  result the source drops.
\<close>

record 's FileReader =
  ReadAll :: "'s \<Rightarrow> (string \<times> error option) \<times> 's"
  Close :: "'s \<Rightarrow> 's"

text \<open>
  The interface \<open>FileStore\<close> of store.go. The \<open>io.Reader\<close> given to \<open>CreateCacheFile\<close>
  is the string it yields.
\<close>

record 's FileStore =
  CreateCacheFile :: "string \<Rightarrow> string \<Rightarrow> 's \<Rightarrow> error option \<times> 's"
  SetCacheFileMetadata :: "string \<Rightarrow> Metadata \<Rightarrow> 's \<Rightarrow> (bool \<times> error option) \<times> 's"
  GetCacheFileReader :: "string \<Rightarrow> 's \<Rightarrow> (error + 's FileReader) \<times> 's"

text \<open>
  \<open>backend.Client\<close> and \<open>backend.Manager\<close>: \<open>Download\<close> returns the bytes written to the
  destination buffer and the error; \<open>persistedretry.Manager\<close> with its \<open>Add\<close>.
\<close>

record 's Client =
  Download :: "string \<Rightarrow> 's \<Rightarrow> (string \<times> error option) \<times> 's"

record 's Manager =
  GetClient :: "string \<Rightarrow> 's \<Rightarrow> (error + 's Client) \<times> 's"

record 's RetryManager =
  Add :: "Task \<Rightarrow> 's \<Rightarrow> error option \<times> 's"

text \<open>
  The struct \<open>tagStore\<close>. The field \<open>logger\<close> stands for the package-level logger
  \<open>utils/log\<close>, which the source reaches as a global: \<open>logger s tag msg\<close> is
  \<open>log.With("tag", tag).Errorf(msg)\<close>.
\<close>

record 's tagStore =
  fs :: "'s FileStore"
  backends :: "'s Manager"
  writeBackManager :: "'s RetryManager"
  logger :: "string \<Rightarrow> string \<Rightarrow> 's \<Rightarrow> 's"

subsection \<open>The operations of store.go\<close>

definition writeTagToDisk :: "'s tagStore \<Rightarrow> string \<Rightarrow> Digest \<Rightarrow> 's \<Rightarrow> error option \<times> 's" where
  "writeTagToDisk s tag d w =
     (let buf = String d in
      case CreateCacheFile (fs s) tag buf w of
        (Some err, w1) \<Rightarrow> if \<not> IsExist err then (Some err, w1) else (None, w1)
      | (None, w1) \<Rightarrow> (None, w1))"

definition Put :: "'s tagStore \<Rightarrow> string \<Rightarrow> Digest \<Rightarrow> 64 word \<Rightarrow> 's \<Rightarrow> error option \<times> 's" where
  "Put s tag d writeBackDelay w =
     (case writeTagToDisk s tag d w of
        (Some err, w1) \<Rightarrow> (Some (Errorf (''write tag to disk: '' @ Error err)), w1)
      | (None, w1) \<Rightarrow>
          (case SetCacheFileMetadata (fs s) tag (NewPersist True) w1 of
             ((changed, Some err), w2) \<Rightarrow>
               (Some (Errorf (''set persist metadata: '' @ Error err)), w2)
           | ((changed, None), w2) \<Rightarrow>
               (let task = NewTaskWithDelay tag tag writeBackDelay in
                case Add (writeBackManager s) task w2 of
                  (Some err, w3) \<Rightarrow> (Some (Errorf (''add write-back task: '' @ Error err)), w3)
                | (None, w3) \<Rightarrow> (None, w3))))"

definition resolveFromDisk :: "'s tagStore \<Rightarrow> string \<Rightarrow> 's \<Rightarrow> (Digest \<times> error option) \<times> 's" where
  "resolveFromDisk s tag w =
     (case GetCacheFileReader (fs s) tag w of
        (Inl err, w1) \<Rightarrow>
          if IsNotExist err then ((zero_Digest, Some ErrTagNotFound), w1)
          else ((zero_Digest, Some (Errorf (''fs: '' @ Error err))), w1)
      | (Inr f, w1) \<Rightarrow>
          (case ReadAll f w1 of
             ((b, Some err), w2) \<Rightarrow>
               ((zero_Digest, Some (Errorf (''copy from fs: '' @ Error err))), Close f w2)
           | ((b, None), w2) \<Rightarrow>
               (case ParseSHA256Digest b of
                  Inl err \<Rightarrow>
                    ((zero_Digest, Some (Errorf (''parse fs digest: '' @ Error err))), Close f w2)
                | Inr d \<Rightarrow> ((d, None), Close f w2))))"

definition resolveFromBackend :: "'s tagStore \<Rightarrow> string \<Rightarrow> 's \<Rightarrow> (Digest \<times> error option) \<times> 's" where
  "resolveFromBackend s tag w =
     (case GetClient (backends s) tag w of
        (Inl err, w1) \<Rightarrow> ((zero_Digest, Some (Errorf (''backend manager: '' @ Error err))), w1)
      | (Inr backendClient, w1) \<Rightarrow>
          (case Download backendClient tag w1 of
             ((b, Some err), w2) \<Rightarrow>
               if err = ErrBlobNotFound then ((zero_Digest, Some ErrTagNotFound), w2)
               else ((zero_Digest, Some (Errorf (''backend client: '' @ Error err))), w2)
           | ((b, None), w2) \<Rightarrow>
               (case ParseSHA256Digest b of
                  Inl err \<Rightarrow>
                    ((zero_Digest, Some (Errorf (''parse backend digest: '' @ Error err))), w2)
                | Inr d \<Rightarrow>
                    (case writeTagToDisk s tag d w2 of
                       (Some err, w3) \<Rightarrow>
                         ((d, None),
                          logger s tag (''Error writing tag to disk: '' @ Error err) w3)
                     | (None, w3) \<Rightarrow> ((d, None), w3)))))"

text \<open>
  The loop of \<open>Get\<close> over its list of resolvers: \<open>d\<close> and \<open>err\<close> are the named results,
  assigned at each round; \<open>continue\<close> on \<open>ErrTagNotFound\<close>, \<open>break\<close> otherwise, and the
  values last assigned are returned when the list is exhausted.
\<close>

fun Get_loop ::
  "(string \<Rightarrow> 's \<Rightarrow> (Digest \<times> error option) \<times> 's) list \<Rightarrow> string \<Rightarrow>
   Digest \<times> error option \<Rightarrow> 's \<Rightarrow> (Digest \<times> error option) \<times> 's" where
  "Get_loop [] tag r w = (r, w)"
| "Get_loop (resolve # rest) tag r w =
     (case resolve tag w of
        ((d, err), w1) \<Rightarrow>
          if err = Some ErrTagNotFound then Get_loop rest tag (d, err) w1
          else ((d, err), w1))"

definition Get :: "'s tagStore \<Rightarrow> string \<Rightarrow> 's \<Rightarrow> (Digest \<times> error option) \<times> 's" where
  "Get s tag w =
     Get_loop [resolveFromDisk s, resolveFromBackend s] tag (zero_Digest, None) w"

subsection \<open>In-memory collaborators\<close>

text \<open>
  Modelled from the spec: the implementations of the file store, the backend manager
  and the write-back scheduler are not part of store.go. The spec (section 6) gives their
  contracts: the local cache creates an entry only if the name is absent and reports
  "already exists" otherwise, attaches the persist flag to an existing entry, and
  reports "not found" when opening an absent name; the backend client reports "blob not
  found" through its sentinel; the scheduler accepts a task into its queue. \<open>world\<close> is
  the state of the three together with the log output. Any operation can also fail with
  an arbitrary error: \<open>faults w operation name\<close> is the error injected into that
  operation on that name, checked before the operation does anything.
\<close>

datatype operation =
  OpCreate | OpSetMetadata | OpGetReader | OpRead | OpGetClient | OpDownload | OpAdd

record world =
  cache :: "string \<rightharpoonup> string"
  persist :: "string \<rightharpoonup> Metadata"
  blobs :: "string \<rightharpoonup> string"
  queue :: "Task list"
  logs :: "(string \<times> string) list"
  faults :: "operation \<Rightarrow> string \<Rightarrow> error option"

definition memCreateCacheFile :: "string \<Rightarrow> string \<Rightarrow> world \<Rightarrow> error option \<times> world" where
  "memCreateCacheFile name content w =
     (case faults w OpCreate name of
        Some e \<Rightarrow> (Some e, w)
      | None \<Rightarrow>
          (case cache w name of
             Some old \<Rightarrow> (Some (ErrExist ''file exists''), w)
           | None \<Rightarrow> (None, w\<lparr>cache := (cache w)(name \<mapsto> content)\<rparr>)))"

definition memSetCacheFileMetadata ::
  "string \<Rightarrow> Metadata \<Rightarrow> world \<Rightarrow> (bool \<times> error option) \<times> world" where
  "memSetCacheFileMetadata name md w =
     (case faults w OpSetMetadata name of
        Some e \<Rightarrow> ((False, Some e), w)
      | None \<Rightarrow>
          (case cache w name of
             None \<Rightarrow> ((False, Some (ErrNotExist ''no such file'')), w)
           | Some content \<Rightarrow>
               ((persist w name \<noteq> Some md, None), w\<lparr>persist := (persist w)(name \<mapsto> md)\<rparr>)))"

definition memFileReader :: "string \<Rightarrow> string \<Rightarrow> world FileReader" where
  "memFileReader name content =
     \<lparr>ReadAll = (\<lambda>w. case faults w OpRead name of
                        Some e \<Rightarrow> (([], Some e), w)
                      | None \<Rightarrow> ((content, None), w)),
      Close = (\<lambda>w. w)\<rparr>"

definition memGetCacheFileReader :: "string \<Rightarrow> world \<Rightarrow> (error + world FileReader) \<times> world" where
  "memGetCacheFileReader name w =
     (case faults w OpGetReader name of
        Some e \<Rightarrow> (Inl e, w)
      | None \<Rightarrow>
          (case cache w name of
             None \<Rightarrow> (Inl (ErrNotExist ''no such file''), w)
           | Some content \<Rightarrow> (Inr (memFileReader name content), w)))"

definition memFileStore :: "world FileStore" where
  "memFileStore =
     \<lparr>CreateCacheFile = memCreateCacheFile,
      SetCacheFileMetadata = memSetCacheFileMetadata,
      GetCacheFileReader = memGetCacheFileReader\<rparr>"

definition memClient :: "world Client" where
  "memClient =
     \<lparr>Download = (\<lambda>name w. case faults w OpDownload name of
                              Some e \<Rightarrow> (([], Some e), w)
                            | None \<Rightarrow>
                                (case blobs w name of
                                   None \<Rightarrow> (([], Some ErrBlobNotFound), w)
                                 | Some content \<Rightarrow> ((content, None), w)))\<rparr>"

definition memManager :: "world Manager" where
  "memManager =
     \<lparr>GetClient = (\<lambda>name w. case faults w OpGetClient name of
                               Some e \<Rightarrow> (Inl e, w)
                             | None \<Rightarrow> (Inr memClient, w))\<rparr>"

definition memRetryManager :: "world RetryManager" where
  "memRetryManager =
     \<lparr>Add = (\<lambda>task w. case faults w OpAdd (destKey task) of
                         Some e \<Rightarrow> (Some e, w)
                       | None \<Rightarrow> (None, w\<lparr>queue := queue w @ [task]\<rparr>))\<rparr>"

definition memLogger :: "string \<Rightarrow> string \<Rightarrow> world \<Rightarrow> world" where
  "memLogger tag msg w = w\<lparr>logs := logs w @ [(tag, msg)]\<rparr>"

definition memStore :: "world tagStore" where
  "memStore =
     \<lparr>fs = memFileStore, backends = memManager, writeBackManager = memRetryManager,
      logger = memLogger\<rparr>"

text \<open>
  The collaborators are well behaved on a name when no error is injected into any
  operation on it: they then fail only with the conditions of their contracts.
\<close>

definition well_behaved :: "world \<Rightarrow> string \<Rightarrow> bool" where
  "well_behaved w name =
     list_all (\<lambda>operation. faults w operation name = None)
       [OpCreate, OpSetMetadata, OpGetReader, OpRead, OpGetClient, OpDownload, OpAdd]"

text \<open>The world with nothing stored and no injected error, and two sample digests.\<close>

definition empty_world :: world where
  "empty_world =
     \<lparr>cache = Map.empty, persist = Map.empty, blobs = Map.empty, queue = [], logs = [],
      faults = (\<lambda>operation name. None)\<rparr>"

definition fault_world :: "operation \<Rightarrow> error \<Rightarrow> world" where
  "fault_world failing e =
     empty_world\<lparr>faults := (\<lambda>operation name. if operation = failing then Some e else None)\<rparr>"

definition digest_a :: Digest where
  "digest_a = Digest ''sha256'' (replicate 64 (CHR ''a''))"

definition digest_b :: Digest where
  "digest_b = Digest ''sha256'' (replicate 64 (CHR ''b''))"

definition stale_world :: world where
  "stale_world = empty_world\<lparr>cache := [''latest'' \<mapsto> String digest_b]\<rparr>"

definition garbage_world :: world where
  "garbage_world =
     empty_world\<lparr>cache := [''latest'' \<mapsto> ''not-a-digest''],
                   blobs := [''latest'' \<mapsto> String digest_a]\<rparr>"

definition backend_world :: world where
  "backend_world = empty_world\<lparr>blobs := [''latest'' \<mapsto> String digest_a]\<rparr>"

definition full_disk_world :: world where
  "full_disk_world =
     (fault_world OpCreate (Errorf ''disk full''))\<lparr>blobs := [''latest'' \<mapsto> String digest_a]\<rparr>"

section \<open>Properties\<close>

subsection \<open>Auxiliary facts\<close>

lemmas mem_defs = memStore_def memFileStore_def memManager_def memClient_def
  memRetryManager_def memLogger_def memCreateCacheFile_def memSetCacheFileMetadata_def
  memGetCacheFileReader_def memFileReader_def

lemmas world_defs = empty_world_def fault_world_def stale_world_def garbage_world_def
  backend_world_def full_disk_world_def

lemma Get_unfold:
  "Get s tag w =
     (case resolveFromDisk s tag w of
        ((d, err), w1) \<Rightarrow>
          if err = Some ErrTagNotFound then resolveFromBackend s tag w1 else ((d, err), w1))"
  by (simp add: Get_def split: prod.splits)

lemma is_hex_not_colon: "is_hex c \<Longrightarrow> c \<noteq> CHR '':''"
  by (auto simp: is_hex_def)

lemma Parse_String: "valid_digest d \<Longrightarrow> ParseSHA256Digest (String d) = Inr d"
proof -
  assume v: "valid_digest d"
  obtain a h where d: "d = Digest a h" by (cases d)
  from v d have a: "a = ''sha256''" and l: "length h = 64" and hx: "list_all is_hex h"
    by (simp_all add: valid_digest_def)
  from hx have nc: "CHR '':'' \<notin> set h"
    using is_hex_not_colon by (auto simp: list_all_iff)
  show ?thesis
    unfolding ParseSHA256Digest_def String_def d a
    using l hx nc by (simp add: Let_def)
qed

lemma Parse_Inr:
  assumes "ParseSHA256Digest raw = Inr d"
  shows "String d = raw \<and> valid_digest d"
proof -
  let ?a = "takeWhile (\<lambda>c. c \<noteq> CHR '':'') raw"
  let ?r = "dropWhile (\<lambda>c. c \<noteq> CHR '':'') raw"
  from assms have r: "?r \<noteq> []" and a: "?a = ''sha256''" and l: "length (tl ?r) = 64"
    and hx: "list_all is_hex (tl ?r)" and d: "d = Digest ?a (tl ?r)"
    by (auto simp: ParseSHA256Digest_def Let_def split: if_splits)
  from r have "hd ?r = CHR '':''"
    using hd_dropWhile [of "\<lambda>c. c \<noteq> CHR '':''" raw] by auto
  with r have "?r = CHR '':'' # tl ?r" by (cases ?r) auto
  then have "?a @ CHR '':'' # tl ?r = raw"
    using takeWhile_dropWhile_id [of "\<lambda>c. c \<noteq> CHR '':''" raw] by simp
  then show ?thesis using a l hx d by (simp add: String_def valid_digest_def)
qed

lemma valid_digest_a: "valid_digest digest_a"
  by (simp add: valid_digest_def digest_a_def is_hex_def list_all_iff)

lemma valid_digest_b: "valid_digest digest_b"
  by (simp add: valid_digest_def digest_b_def is_hex_def list_all_iff)

lemma Parse_garbage:
  "ParseSHA256Digest ''not-a-digest'' = Inl (Errorf ''invalid digest: expected algo:hex'')"
  by (simp add: ParseSHA256Digest_def)

lemma mem_writeTagToDisk:
  "writeTagToDisk memStore t d w =
     (case faults w OpCreate t of
        Some e \<Rightarrow> (if IsExist e then None else Some e, w)
      | None \<Rightarrow>
          (case cache w t of
             Some c \<Rightarrow> (None, w)
           | None \<Rightarrow> (None, w\<lparr>cache := (cache w)(t \<mapsto> String d)\<rparr>)))"
  by (simp add: writeTagToDisk_def mem_defs split: option.splits)

lemma mem_resolveFromDisk:
  "resolveFromDisk memStore t w =
     (case faults w OpGetReader t of
        Some e \<Rightarrow>
          (if IsNotExist e then (zero_Digest, Some ErrTagNotFound)
           else (zero_Digest, Some (Errorf (''fs: '' @ Error e))), w)
      | None \<Rightarrow>
          (case cache w t of
             None \<Rightarrow> ((zero_Digest, Some ErrTagNotFound), w)
           | Some content \<Rightarrow>
               (case faults w OpRead t of
                  Some e \<Rightarrow> ((zero_Digest, Some (Errorf (''copy from fs: '' @ Error e))), w)
                | None \<Rightarrow>
                    (case ParseSHA256Digest content of
                       Inl e \<Rightarrow> ((zero_Digest, Some (Errorf (''parse fs digest: '' @ Error e))), w)
                     | Inr d \<Rightarrow> ((d, None), w)))))"
  by (simp add: resolveFromDisk_def mem_defs split: option.splits sum.splits)

lemma mem_resolveFromDisk_state: "snd (resolveFromDisk memStore t w) = w"
  by (simp add: mem_resolveFromDisk split: option.splits sum.splits)

lemma mem_Put_ok:
  assumes "fst (Put memStore t d dl w) = None"
  shows "snd (Put memStore t d dl w)
     = w\<lparr>cache := (cache w)(t \<mapsto> (case cache w t of None \<Rightarrow> String d | Some c \<Rightarrow> c)),
         persist := (persist w)(t \<mapsto> Persist True),
         queue := queue w @ [NewTaskWithDelay t t dl]\<rparr>"
  using assms unfolding Put_def mem_writeTagToDisk
  by (auto simp: mem_defs NewPersist_def NewTaskWithDelay_def Let_def fun_upd_idem
      split: option.splits if_splits)

lemma mem_Put_well_behaved:
  assumes "faults w OpCreate t = None" "faults w OpSetMetadata t = None" "faults w OpAdd t = None"
  shows "fst (Put memStore t d dl w) = None"
  using assms unfolding Put_def mem_writeTagToDisk
  by (auto simp: mem_defs NewPersist_def NewTaskWithDelay_def Let_def
      split: option.splits if_splits)

lemma well_behaved_faults:
  "well_behaved w t \<Longrightarrow> faults w operation t = None"
  by (cases operation) (simp_all add: well_behaved_def)

lemma mem_resolveFromBackend:
  "resolveFromBackend memStore t w =
     (case faults w OpGetClient t of
        Some e \<Rightarrow> ((zero_Digest, Some (Errorf (''backend manager: '' @ Error e))), w)
      | None \<Rightarrow>
          (case faults w OpDownload t of
             Some e \<Rightarrow>
               if e = ErrBlobNotFound then ((zero_Digest, Some ErrTagNotFound), w)
               else ((zero_Digest, Some (Errorf (''backend client: '' @ Error e))), w)
           | None \<Rightarrow>
               (case blobs w t of
                  None \<Rightarrow> ((zero_Digest, Some ErrTagNotFound), w)
                | Some content \<Rightarrow>
                    (case ParseSHA256Digest content of
                       Inl e \<Rightarrow>
                         ((zero_Digest, Some (Errorf (''parse backend digest: '' @ Error e))), w)
                     | Inr d \<Rightarrow>
                         (case writeTagToDisk memStore t d w of
                            (Some e, w3) \<Rightarrow>
                              ((d, None),
                               w3\<lparr>logs := logs w3
                                     @ [(t, ''Error writing tag to disk: '' @ Error e)]\<rparr>)
                          | (None, w3) \<Rightarrow> ((d, None), w3))))))"
  unfolding resolveFromBackend_def
  by (simp add: memStore_def memManager_def memClient_def memLogger_def
      split: option.splits sum.splits prod.splits)

lemma resolveFromDisk_backends:
  "resolveFromDisk (s\<lparr>backends := m\<rparr>) tag w = resolveFromDisk s tag w"
  by (simp add: resolveFromDisk_def)

lemma Put_add_failure:
  assumes "writeTagToDisk s tag d w = (None, w1)"
    and "SetCacheFileMetadata (fs s) tag (NewPersist True) w1 = ((changed, None), w2)"
    and "Add (writeBackManager s) (NewTaskWithDelay tag tag writeBackDelay) w2 = (Some e, w3)"
  shows "Put s tag d writeBackDelay w
           = (Some (Errorf (''add write-back task: '' @ Error e)), w3)"
  using assms by (simp add: Put_def)

lemma Parse_String_digest_a: "ParseSHA256Digest (String digest_a) = Inr digest_a"
  by (rule Parse_String [OF valid_digest_a])

subsection \<open>Resolution order of Get\<close>

text \<open>
  Claim C2. \<open>Get\<close> asks the local cache tier first and the backend tier second. What the
  local tier returns is returned as it is, together with the state the local tier left,
  unless it is the not-found sentinel; on not-found the backend tier runs from that state
  and its result is returned as it is. So an error of the local tier other than not-found
  ends \<open>Get\<close> before the backend tier is reached.
\<close>

theorem Get_resolution_order:
  "Get s tag w =
     (case resolveFromDisk s tag w of
        ((d, err), w1) \<Rightarrow>
          if err = Some ErrTagNotFound then resolveFromBackend s tag w1 else ((d, err), w1))"
  by (simp add: Get_def split: prod.splits)

theorem Get_resolution_order_witness:
  "fst (Get memStore ''latest'' stale_world) = (digest_b, None)
   \<and> fst (Get memStore ''latest'' backend_world) = (digest_a, None)
   \<and> blobs ((fault_world OpGetReader (Errorf ''i/o error''))
              \<lparr>blobs := [''latest'' \<mapsto> String digest_a]\<rparr>) ''latest''
       = Some (String digest_a)
   \<and> fst (Get memStore ''latest''
             ((fault_world OpGetReader (Errorf ''i/o error''))
                \<lparr>blobs := [''latest'' \<mapsto> String digest_a]\<rparr>))
       = (zero_Digest, Some (Errorf ''fs: i/o error''))"
proof -
  let ?w = "(fault_world OpGetReader (Errorf ''i/o error''))
              \<lparr>blobs := [''latest'' \<mapsto> String digest_a]\<rparr>"
  have "resolveFromDisk memStore ''latest'' stale_world = ((digest_b, None), stale_world)"
    using Parse_String [OF valid_digest_b]
    by (simp add: resolveFromDisk_def mem_defs world_defs)
  moreover have "resolveFromDisk memStore ''latest'' backend_world
      = ((zero_Digest, Some ErrTagNotFound), backend_world)"
    by (simp add: resolveFromDisk_def mem_defs world_defs)
  moreover have "fst (resolveFromBackend memStore ''latest'' backend_world) = (digest_a, None)"
    using Parse_String [OF valid_digest_a]
    by (simp add: resolveFromBackend_def writeTagToDisk_def mem_defs world_defs
        split: prod.splits option.splits)
  moreover have "resolveFromDisk memStore ''latest'' ?w
      = ((zero_Digest, Some (Errorf ''fs: i/o error'')), ?w)"
    by (simp add: resolveFromDisk_def mem_defs world_defs)
  moreover have "blobs ?w ''latest'' = Some (String digest_a)"
    by simp
  ultimately show ?thesis
    using Get_resolution_order [of memStore "''latest''" stale_world]
      Get_resolution_order [of memStore "''latest''" backend_world]
      Get_resolution_order [of memStore "''latest''" ?w]
    by simp
qed

subsection \<open>Not found at both tiers\<close>

text \<open>
  Claim C3. When the local cache reports the entry absent (an error that
  \<open>os.IsNotExist\<close> accepts) and the backend client reports the sentinel
  \<open>ErrBlobNotFound\<close>, \<open>Get\<close> returns the zero digest with the sentinel
  \<open>ErrTagNotFound\<close> itself, not an error built by \<open>fmt.Errorf\<close>.
\<close>

theorem Get_not_found:
  assumes "GetCacheFileReader (fs s) tag w = (Inl e, w1)"
    and "IsNotExist e"
    and "GetClient (backends s) tag w1 = (Inr c, w2)"
    and "Download c tag w2 = ((b, Some ErrBlobNotFound), w3)"
  shows "Get s tag w = ((zero_Digest, Some ErrTagNotFound), w3)"
proof -
  from assms(1,2) have "resolveFromDisk s tag w = ((zero_Digest, Some ErrTagNotFound), w1)"
    by (simp add: resolveFromDisk_def)
  moreover from assms(3,4)
  have "resolveFromBackend s tag w1 = ((zero_Digest, Some ErrTagNotFound), w3)"
    by (simp add: resolveFromBackend_def)
  ultimately show ?thesis by (simp add: Get_unfold)
qed

theorem Get_not_found_witness:
  "GetCacheFileReader (fs memStore) ''missing'' empty_world
     = (Inl (ErrNotExist ''no such file''), empty_world)
   \<and> IsNotExist (ErrNotExist ''no such file'')
   \<and> GetClient (backends memStore) ''missing'' empty_world = (Inr memClient, empty_world)
   \<and> Download memClient ''missing'' empty_world = (([], Some ErrBlobNotFound), empty_world)
   \<and> Get memStore ''missing'' empty_world = ((zero_Digest, Some ErrTagNotFound), empty_world)"
proof -
  have 1: "GetCacheFileReader (fs memStore) ''missing'' empty_world
     = (Inl (ErrNotExist ''no such file''), empty_world)"
    by (simp add: mem_defs empty_world_def)
  have 2: "IsNotExist (ErrNotExist ''no such file'')" by simp
  have 3: "GetClient (backends memStore) ''missing'' empty_world = (Inr memClient, empty_world)"
    by (simp add: memStore_def memManager_def empty_world_def)
  have 4: "Download memClient ''missing'' empty_world
     = (([], Some ErrBlobNotFound), empty_world)"
    by (simp add: memClient_def empty_world_def)
  from Get_not_found [OF 1 2 3 4] 1 2 3 4 show ?thesis by simp
qed

subsection \<open>A malformed local entry\<close>

text \<open>
  Claim C4. When the local cache opens the entry and yields content that
  \<open>ParseSHA256Digest\<close> rejects, \<open>Get\<close> fails with the parse error under the context
  \<open>parse fs digest\<close>. The error is not the not-found sentinel, the result is the one of
  the local tier, and it is the same whatever backend manager the store holds: the
  backend tier is not reached.
\<close>

theorem Get_malformed_local:
  assumes "GetCacheFileReader (fs s) tag w = (Inr f, w1)"
    and "ReadAll f w1 = ((b, None), w2)"
    and "ParseSHA256Digest b = Inl e"
  shows "Get s tag w
           = ((zero_Digest, Some (Errorf (''parse fs digest: '' @ Error e))), Close f w2)
       \<and> snd (fst (Get s tag w)) \<noteq> Some ErrTagNotFound
       \<and> snd (fst (Get s tag w)) \<noteq> None
       \<and> Get s tag w = resolveFromDisk s tag w
       \<and> Get (s\<lparr>backends := m\<rparr>) tag w = Get s tag w"
proof -
  from assms have r: "resolveFromDisk s tag w
      = ((zero_Digest, Some (Errorf (''parse fs digest: '' @ Error e))), Close f w2)"
    by (simp add: resolveFromDisk_def)
  have "resolveFromDisk (s\<lparr>backends := m\<rparr>) tag w = resolveFromDisk s tag w"
    by (simp add: resolveFromDisk_def)
  with r show ?thesis by (simp add: Get_unfold)
qed

theorem Get_malformed_local_witness:
  "GetCacheFileReader (fs memStore) ''latest'' garbage_world
     = (Inr (memFileReader ''latest'' ''not-a-digest''), garbage_world)
   \<and> ReadAll (memFileReader ''latest'' ''not-a-digest'') garbage_world
     = ((''not-a-digest'', None), garbage_world)
   \<and> ParseSHA256Digest ''not-a-digest'' = Inl (Errorf ''invalid digest: expected algo:hex'')
   \<and> blobs garbage_world ''latest'' = Some (String digest_a)
   \<and> fst (Get memStore ''latest'' garbage_world)
     = (zero_Digest, Some (Errorf ''parse fs digest: invalid digest: expected algo:hex''))"
proof -
  have 1: "GetCacheFileReader (fs memStore) ''latest'' garbage_world
      = (Inr (memFileReader ''latest'' ''not-a-digest''), garbage_world)"
    by (simp add: memStore_def memFileStore_def memGetCacheFileReader_def world_defs)
  have 2: "ReadAll (memFileReader ''latest'' ''not-a-digest'') garbage_world
      = ((''not-a-digest'', None), garbage_world)"
    by (simp add: memFileReader_def world_defs)
  have 3: "blobs garbage_world ''latest'' = Some (String digest_a)"
    by (simp add: world_defs)
  from Get_malformed_local [OF 1 2 Parse_garbage] 1 2 3 Parse_garbage
  show ?thesis by simp
qed

subsection \<open>Failure of the persist metadata step\<close>

text \<open>
  Claim C6. When the tag has been written to disk and \<open>SetCacheFileMetadata\<close> returns an
  error, \<open>Put\<close> returns an error under the context \<open>set persist metadata\<close>, and the state
  it leaves is the state \<open>SetCacheFileMetadata\<close> left: \<open>Add\<close> of the write-back manager
  is not run. The outcome is the same whatever write-back manager the store holds.
\<close>

theorem Put_metadata_failure:
  assumes "writeTagToDisk s tag d w = (None, w1)"
    and "SetCacheFileMetadata (fs s) tag (NewPersist True) w1 = ((changed, Some e), w2)"
  shows "Put s tag d writeBackDelay w
           = (Some (Errorf (''set persist metadata: '' @ Error e)), w2)
       \<and> Put (s\<lparr>writeBackManager := m\<rparr>) tag d writeBackDelay w
           = Put s tag d writeBackDelay w"
proof -
  have "writeTagToDisk (s\<lparr>writeBackManager := m\<rparr>) tag d w = writeTagToDisk s tag d w"
    by (simp add: writeTagToDisk_def)
  with assms show ?thesis by (simp add: Put_def)
qed

theorem Put_metadata_failure_witness:
  "writeTagToDisk memStore ''latest'' digest_a (fault_world OpSetMetadata (Errorf ''disk full''))
     = (None, (fault_world OpSetMetadata (Errorf ''disk full''))
                \<lparr>cache := [''latest'' \<mapsto> String digest_a]\<rparr>)
   \<and> fst (SetCacheFileMetadata (fs memStore) ''latest'' (NewPersist True)
            ((fault_world OpSetMetadata (Errorf ''disk full''))
               \<lparr>cache := [''latest'' \<mapsto> String digest_a]\<rparr>))
       = (False, Some (Errorf ''disk full''))
   \<and> fst (Put memStore ''latest'' digest_a 30 (fault_world OpSetMetadata (Errorf ''disk full'')))
       = Some (Errorf ''set persist metadata: disk full'')
   \<and> queue (snd (Put memStore ''latest'' digest_a 30
                    (fault_world OpSetMetadata (Errorf ''disk full'')))) = []"
proof -
  let ?w = "fault_world OpSetMetadata (Errorf ''disk full'')"
  let ?w1 = "?w\<lparr>cache := [''latest'' \<mapsto> String digest_a]\<rparr>"
  have 1: "writeTagToDisk memStore ''latest'' digest_a ?w = (None, ?w1)"
    by (simp add: writeTagToDisk_def mem_defs world_defs)
  have 2: "SetCacheFileMetadata (fs memStore) ''latest'' (NewPersist True) ?w1
      = ((False, Some (Errorf ''disk full'')), ?w1)"
    by (simp add: mem_defs world_defs)
  have 3: "queue ?w1 = []" by (simp add: world_defs)
  note th = Put_metadata_failure [OF 1 2, of 30]
  from th have p: "Put memStore ''latest'' digest_a 30 ?w
      = (Some (Errorf ''set persist metadata: disk full''), ?w1)"
    by simp
  have a: "fst (Put memStore ''latest'' digest_a 30 ?w)
      = Some (Errorf ''set persist metadata: disk full'')"
    by (simp only: p fst_conv)
  have b: "queue (snd (Put memStore ''latest'' digest_a 30 ?w)) = []"
    by (simp only: p snd_conv 3)
  have c: "fst (SetCacheFileMetadata (fs memStore) ''latest'' (NewPersist True) ?w1)
      = (False, Some (Errorf ''disk full''))"
    by (simp only: 2 fst_conv)
  from 1 a b c show ?thesis by blast
qed

subsection \<open>Failure of backend client selection\<close>

text \<open>
  Claim C8. When the local tier reports not-found and \<open>GetClient\<close> of the backend manager
  returns an error, whatever the error is, \<open>Get\<close> returns it under the context
  \<open>backend manager\<close>; the result is never the sentinel \<open>ErrTagNotFound\<close>.
\<close>

theorem Get_client_selection_failure:
  assumes "resolveFromDisk s tag w = ((d0, Some ErrTagNotFound), w1)"
    and "GetClient (backends s) tag w1 = (Inl e, w2)"
  shows "Get s tag w = ((zero_Digest, Some (Errorf (''backend manager: '' @ Error e))), w2)
       \<and> snd (fst (Get s tag w)) \<noteq> Some ErrTagNotFound"
  using assms by (simp add: Get_unfold resolveFromBackend_def)

theorem Get_client_selection_failure_witness:
  "resolveFromDisk memStore ''latest'' (fault_world OpGetClient (Errorf ''no backend configured''))
     = ((zero_Digest, Some ErrTagNotFound), fault_world OpGetClient (Errorf ''no backend configured''))
   \<and> GetClient (backends memStore) ''latest'' (fault_world OpGetClient (Errorf ''no backend configured''))
     = (Inl (Errorf ''no backend configured''), fault_world OpGetClient (Errorf ''no backend configured''))
   \<and> fst (Get memStore ''latest'' (fault_world OpGetClient (Errorf ''no backend configured'')))
     = (zero_Digest, Some (Errorf ''backend manager: no backend configured''))"
proof -
  let ?w = "fault_world OpGetClient (Errorf ''no backend configured'')"
  have 1: "resolveFromDisk memStore ''latest'' ?w = ((zero_Digest, Some ErrTagNotFound), ?w)"
    by (simp add: resolveFromDisk_def mem_defs world_defs)
  have 2: "GetClient (backends memStore) ''latest'' ?w = (Inl (Errorf ''no backend configured''), ?w)"
    by (simp add: mem_defs world_defs)
  from Get_client_selection_failure [OF 1 2] 1 2 show ?thesis by simp
qed

subsection \<open>Put followed by Get\<close>

text \<open>
  Claim C1, as stated, fails: \<open>Put\<close> takes the already-exists error of
  \<open>CreateCacheFile\<close> for success and leaves the entry as it is, so over a cache that
  holds another digest under the tag, \<open>Put\<close> of \<open>digest_a\<close> returns no error and the
  following \<open>Get\<close> returns the old digest \<open>digest_b\<close>. No error is injected into any
  operation of that world.
\<close>

theorem Put_Get_stale_counterexample:
  "valid_digest digest_a
   \<and> well_behaved stale_world ''latest''
   \<and> fst (Put memStore ''latest'' digest_a 30 stale_world) = None
   \<and> fst (Get memStore ''latest'' (snd (Put memStore ''latest'' digest_a 30 stale_world)))
       = (digest_b, None)
   \<and> digest_b \<noteq> digest_a"
proof -
  have 1: "fst (Put memStore ''latest'' digest_a 30 stale_world) = None"
    by (rule mem_Put_well_behaved) (simp_all add: world_defs)
  have c: "cache (snd (Put memStore ''latest'' digest_a 30 stale_world)) ''latest''
      = Some (String digest_b)"
    by (simp add: mem_Put_ok [OF 1]) (simp add: world_defs)
  have f: "faults (snd (Put memStore ''latest'' digest_a 30 stale_world)) = (\<lambda>operation name. None)"
    by (simp add: mem_Put_ok [OF 1]) (simp add: world_defs)
  have 2: "fst (Get memStore ''latest'' (snd (Put memStore ''latest'' digest_a 30 stale_world)))
       = (digest_b, None)"
    using c f Parse_String [OF valid_digest_b]
    by (simp add: Get_unfold mem_resolveFromDisk)
  have 3: "digest_b \<noteq> digest_a" by (simp add: digest_a_def digest_b_def)
  have 4: "well_behaved stale_world ''latest''" by (simp add: well_behaved_def world_defs)
  from 1 2 3 4 valid_digest_a show ?thesis by simp
qed

text \<open>
  Claim C1, amended. For every tag and every valid digest \<open>d\<close>: if the cache holds no
  entry for the tag before \<open>Put\<close>, or holds the encoding of \<open>d\<close>, if \<open>Put\<close> returns no
  error, and if opening and reading the entry do not fail, then the following \<open>Get\<close>
  returns \<open>d\<close> with no error and leaves the state as it is. The result is the one of the
  local tier, the same whatever backend manager the store holds; \<open>Put\<close> leaves the
  backend's blobs untouched and the write-back task waiting in the queue; and the
  encoding of \<open>d\<close> parses back to \<open>d\<close>. If instead the cache holds the encoding of a
  valid digest \<open>d0\<close> under the tag and the collaborators are well behaved on the tag,
  \<open>Put\<close> returns no error, leaves the cache as it is, and the following \<open>Get\<close> returns
  \<open>d0\<close> with no error.
\<close>

theorem Put_Get_round_trip:
  "(valid_digest d
    \<and> (cache w t = None \<or> cache w t = Some (String d))
    \<and> fst (Put memStore t d dl w) = None
    \<and> faults w OpGetReader t = None
    \<and> faults w OpRead t = None \<longrightarrow>
      Get memStore t (snd (Put memStore t d dl w))
        = ((d, None), snd (Put memStore t d dl w))
      \<and> Get memStore t (snd (Put memStore t d dl w))
          = resolveFromDisk memStore t (snd (Put memStore t d dl w))
      \<and> Get (memStore\<lparr>backends := m\<rparr>) t (snd (Put memStore t d dl w))
          = Get memStore t (snd (Put memStore t d dl w))
      \<and> blobs (snd (Put memStore t d dl w)) = blobs w
      \<and> queue (snd (Put memStore t d dl w)) = queue w @ [NewTaskWithDelay t t dl]
      \<and> ParseSHA256Digest (String d) = Inr d)
   \<and> (valid_digest d0 \<and> cache w t = Some (String d0) \<and> well_behaved w t \<longrightarrow>
        fst (Put memStore t d dl w) = None
        \<and> cache (snd (Put memStore t d dl w)) = cache w
        \<and> Get memStore t (snd (Put memStore t d dl w))
            = ((d0, None), snd (Put memStore t d dl w)))"
proof (intro conjI impI)
  assume a: "valid_digest d
    \<and> (cache w t = None \<or> cache w t = Some (String d))
    \<and> fst (Put memStore t d dl w) = None
    \<and> faults w OpGetReader t = None
    \<and> faults w OpRead t = None"
  let ?w' = "snd (Put memStore t d dl w)"
  from a have ok: "fst (Put memStore t d dl w) = None" by simp
  note w' = mem_Put_ok [OF ok]
  from a have c: "cache ?w' t = Some (String d)"
    by (auto simp: w')
  have f: "faults ?w' = faults w" by (simp add: w')
  from a show p: "ParseSHA256Digest (String d) = Inr d" by (simp add: Parse_String)
  have r: "resolveFromDisk memStore t ?w' = ((d, None), ?w')"
    using c f p a by (simp add: mem_resolveFromDisk)
  then show g: "Get memStore t ?w' = ((d, None), ?w')"
    by (simp add: Get_unfold)
  from r g show "Get memStore t ?w' = resolveFromDisk memStore t ?w'" by simp
  have "resolveFromDisk (memStore\<lparr>backends := m\<rparr>) t ?w' = ((d, None), ?w')"
    using r by (simp add: resolveFromDisk_backends)
  then have "Get (memStore\<lparr>backends := m\<rparr>) t ?w' = ((d, None), ?w')"
    by (simp add: Get_unfold)
  with g show "Get (memStore\<lparr>backends := m\<rparr>) t ?w' = Get memStore t ?w'" by simp
  show "blobs ?w' = blobs w" by (simp add: w')
  show "queue ?w' = queue w @ [NewTaskWithDelay t t dl]" by (simp add: w')
next
  assume a: "valid_digest d0 \<and> cache w t = Some (String d0) \<and> well_behaved w t"
  let ?w' = "snd (Put memStore t d dl w)"
  from a have wb: "well_behaved w t" by simp
  show ok: "fst (Put memStore t d dl w) = None"
    by (rule mem_Put_well_behaved) (simp_all add: well_behaved_faults [OF wb])
  note w' = mem_Put_ok [OF ok]
  from a show c: "cache ?w' = cache w"
    by (simp add: w' fun_upd_idem)
  have f: "faults ?w' = faults w" by (simp add: w')
  from a have p: "ParseSHA256Digest (String d0) = Inr d0" by (simp add: Parse_String)
  have "resolveFromDisk memStore t ?w' = ((d0, None), ?w')"
    using c f p a well_behaved_faults [OF wb]
    by (simp add: mem_resolveFromDisk)
  then show "Get memStore t ?w' = ((d0, None), ?w')"
    by (simp add: Get_unfold)
qed

theorem Put_Get_round_trip_witness:
  "valid_digest digest_a
   \<and> cache empty_world ''latest'' = None
   \<and> fst (Put memStore ''latest'' digest_a 30 empty_world) = None
   \<and> faults empty_world OpGetReader ''latest'' = None
   \<and> faults empty_world OpRead ''latest'' = None
   \<and> blobs empty_world ''latest'' = None
   \<and> fst (Get memStore ''latest'' (snd (Put memStore ''latest'' digest_a 30 empty_world)))
       = (digest_a, None)
   \<and> valid_digest digest_b
   \<and> cache stale_world ''latest'' = Some (String digest_b)
   \<and> well_behaved stale_world ''latest''
   \<and> fst (Put memStore ''latest'' digest_a 30 stale_world) = None
   \<and> cache (snd (Put memStore ''latest'' digest_a 30 stale_world)) ''latest''
       = Some (String digest_b)
   \<and> fst (Get memStore ''latest'' (snd (Put memStore ''latest'' digest_a 30 stale_world)))
       = (digest_b, None)"
proof -
  have 1: "fst (Put memStore ''latest'' digest_a 30 empty_world) = None"
    by (rule mem_Put_well_behaved) (simp_all add: world_defs)
  have 2: "cache empty_world ''latest'' = None" by (simp add: world_defs)
  have 3: "faults empty_world OpGetReader ''latest'' = None" by (simp add: world_defs)
  have 4: "faults empty_world OpRead ''latest'' = None" by (simp add: world_defs)
  have 5: "blobs empty_world ''latest'' = None" by (simp add: world_defs)
  have 6: "cache stale_world ''latest'' = Some (String digest_b)" by (simp add: world_defs)
  have 7: "well_behaved stale_world ''latest''" by (simp add: well_behaved_def world_defs)
  from Put_Get_round_trip [where d = digest_a and w = empty_world and t = "''latest''"
      and dl = 30 and m = memManager and ?d0.0 = digest_b]
    valid_digest_a 1 2 3 4
  have g: "Get memStore ''latest'' (snd (Put memStore ''latest'' digest_a 30 empty_world))
      = ((digest_a, None), snd (Put memStore ''latest'' digest_a 30 empty_world))"
    by blast
  from Put_Get_round_trip [where d = digest_a and w = stale_world and t = "''latest''"
      and dl = 30 and m = memManager and ?d0.0 = digest_b]
    valid_digest_b 6 7
  have s: "fst (Put memStore ''latest'' digest_a 30 stale_world) = None"
    and c: "cache (snd (Put memStore ''latest'' digest_a 30 stale_world)) = cache stale_world"
    and gs: "Get memStore ''latest'' (snd (Put memStore ''latest'' digest_a 30 stale_world))
      = ((digest_b, None), snd (Put memStore ''latest'' digest_a 30 stale_world))"
    by blast+
  have g': "fst (Get memStore ''latest'' (snd (Put memStore ''latest'' digest_a 30 empty_world)))
       = (digest_a, None)"
    by (simp only: g fst_conv)
  have c': "cache (snd (Put memStore ''latest'' digest_a 30 stale_world)) ''latest''
       = Some (String digest_b)"
    by (simp only: c 6)
  have gs': "fst (Get memStore ''latest''
                    (snd (Put memStore ''latest'' digest_a 30 stale_world)))
       = (digest_b, None)"
    by (simp only: gs fst_conv)
  from valid_digest_a valid_digest_b 1 2 3 4 5 6 7 g' s c' gs' show ?thesis by blast
qed

subsection \<open>Put over an existing entry\<close>

text \<open>
  Claim C5. When \<open>CreateCacheFile\<close> reports already-exists, \<open>writeTagToDisk\<close> returns no
  error and \<open>Put\<close> goes on exactly as if the entry had been created, for any content of
  the existing entry and any digest. With collaborators that are well behaved on the
  tag, two calls of \<open>Put\<close> with the same tag and digest both return no error; the second
  one meets already-exists; afterwards the cache holds one entry for the tag, which can be
  opened: the content the entry had before the first call, or the encoding of the digest
  if there was none. The entry carries the persist flag and both tasks are queued.
\<close>

theorem Put_idempotent:
  "(IsExist e \<and> CreateCacheFile (fs s) tag (String d') v = (Some e, v1) \<longrightarrow>
      writeTagToDisk s tag d' v = (None, v1)
      \<and> Put s tag d' dl' v
          = Put (s\<lparr>fs := (fs s)\<lparr>CreateCacheFile := (\<lambda>name content x. (None, v1))\<rparr>\<rparr>) tag d' dl' v)
   \<and> (well_behaved w t \<longrightarrow>
        (let w1 = snd (Put memStore t d dl w);
             w2 = snd (Put memStore t d dl w1);
             content = (case cache w t of None \<Rightarrow> String d | Some c \<Rightarrow> c)
         in fst (Put memStore t d dl w) = None
            \<and> fst (Put memStore t d dl w1) = None
            \<and> CreateCacheFile (fs memStore) t (String d) w1 = (Some (ErrExist ''file exists''), w1)
            \<and> cache w1 = (cache w)(t \<mapsto> content)
            \<and> cache w2 = (cache w)(t \<mapsto> content)
            \<and> fst (GetCacheFileReader (fs memStore) t w2) = Inr (memFileReader t content)
            \<and> persist w2 t = Some (Persist True)
            \<and> queue w2 = queue w @ [NewTaskWithDelay t t dl, NewTaskWithDelay t t dl]))"
proof (intro conjI impI)
  assume a: "IsExist e \<and> CreateCacheFile (fs s) tag (String d') v = (Some e, v1)"
  then show "writeTagToDisk s tag d' v = (None, v1)"
    by (simp add: writeTagToDisk_def)
  from a show "Put s tag d' dl' v
      = Put (s\<lparr>fs := (fs s)\<lparr>CreateCacheFile := (\<lambda>name content x. (None, v1))\<rparr>\<rparr>) tag d' dl' v"
    by (simp add: Put_def writeTagToDisk_def)
next
  assume wb: "well_behaved w t"
  let ?w1 = "snd (Put memStore t d dl w)"
  let ?w2 = "snd (Put memStore t d dl ?w1)"
  let ?content = "case cache w t of None \<Rightarrow> String d | Some c \<Rightarrow> c"
  have 1: "fst (Put memStore t d dl w) = None"
    by (rule mem_Put_well_behaved) (simp_all add: well_behaved_faults [OF wb])
  note w1 = mem_Put_ok [OF 1]
  have f1: "faults ?w1 = faults w" by (simp add: w1)
  have 2: "fst (Put memStore t d dl ?w1) = None"
    by (rule mem_Put_well_behaved) (simp_all add: f1 well_behaved_faults [OF wb])
  note w2 = mem_Put_ok [OF 2]
  have c1: "cache ?w1 = (cache w)(t \<mapsto> ?content)" by (simp add: w1)
  have c2: "cache ?w2 = (cache w)(t \<mapsto> ?content)"
    by (subst w2) (simp add: c1 fun_upd_idem)
  have cr: "CreateCacheFile (fs memStore) t (String d) ?w1 = (Some (ErrExist ''file exists''), ?w1)"
    using c1 f1 well_behaved_faults [OF wb, of OpCreate]
    by (simp add: memStore_def memFileStore_def memCreateCacheFile_def)
  have f2: "faults ?w2 = faults w" by (subst w2) (simp add: f1)
  have rd: "fst (GetCacheFileReader (fs memStore) t ?w2) = Inr (memFileReader t ?content)"
    using c1 c2 f2 well_behaved_faults [OF wb, of OpGetReader]
    by (simp add: memStore_def memFileStore_def memGetCacheFileReader_def)
  have p2: "persist ?w2 t = Some (Persist True)" by (subst w2) simp
  have q2: "queue ?w2 = queue w @ [NewTaskWithDelay t t dl, NewTaskWithDelay t t dl]"
    by (subst w2) (simp add: w1)
  show "let w1 = snd (Put memStore t d dl w);
             w2 = snd (Put memStore t d dl w1);
             content = (case cache w t of None \<Rightarrow> String d | Some c \<Rightarrow> c)
         in fst (Put memStore t d dl w) = None
            \<and> fst (Put memStore t d dl w1) = None
            \<and> CreateCacheFile (fs memStore) t (String d) w1 = (Some (ErrExist ''file exists''), w1)
            \<and> cache w1 = (cache w)(t \<mapsto> content)
            \<and> cache w2 = (cache w)(t \<mapsto> content)
            \<and> fst (GetCacheFileReader (fs memStore) t w2) = Inr (memFileReader t content)
            \<and> persist w2 t = Some (Persist True)
            \<and> queue w2 = queue w @ [NewTaskWithDelay t t dl, NewTaskWithDelay t t dl]"
    unfolding Let_def using 1 2 cr c1 c2 rd p2 q2 by simp
qed

theorem Put_idempotent_witness:
  "IsExist (ErrExist ''file exists'')
   \<and> CreateCacheFile (fs memStore) ''latest'' (String digest_a) stale_world
       = (Some (ErrExist ''file exists''), stale_world)
   \<and> writeTagToDisk memStore ''latest'' digest_a stale_world = (None, stale_world)
   \<and> well_behaved empty_world ''latest''
   \<and> fst (Put memStore ''latest'' digest_a 30 empty_world) = None
   \<and> fst (Put memStore ''latest'' digest_a 30
             (snd (Put memStore ''latest'' digest_a 30 empty_world))) = None
   \<and> cache (snd (Put memStore ''latest'' digest_a 30
                    (snd (Put memStore ''latest'' digest_a 30 empty_world))))
       = [''latest'' \<mapsto> String digest_a]"
proof -
  have 1: "IsExist (ErrExist ''file exists'')" by simp
  have 2: "CreateCacheFile (fs memStore) ''latest'' (String digest_a) stale_world
       = (Some (ErrExist ''file exists''), stale_world)"
    by (simp add: mem_defs world_defs)
  have 3: "well_behaved empty_world ''latest''"
    by (simp add: well_behaved_def world_defs)
  have 4: "cache empty_world = Map.empty" by (simp add: world_defs)
  from Put_idempotent [where e = "ErrExist ''file exists''" and s = memStore
      and tag = "''latest''" and d' = digest_a and v = stale_world and ?v1.0 = stale_world
      and w = empty_world and t = "''latest''" and d = digest_a and dl = 30 and dl' = 30] 1 2 3 4
  show ?thesis by (simp add: Let_def)
qed

subsection \<open>Failure to enqueue the write-back task\<close>

text \<open>
  Claim C7. When the tag has been written to disk, the persist metadata has been set and
  \<open>Add\<close> of the write-back manager returns an error, \<open>Put\<close> returns an error under the
  context \<open>add write-back task\<close>. The cache entry and the persist flag stay as the first
  two steps left them and no task is queued; the entry can still be opened, and when this
  \<open>Put\<close> created it for a valid digest and reads do not fail, \<open>Get\<close> returns that digest.
\<close>

theorem Put_enqueue_failure:
  assumes "writeTagToDisk memStore t d w = (None, w1)"
    and "SetCacheFileMetadata (fs memStore) t (NewPersist True) w1 = ((changed, None), w2)"
    and "Add (writeBackManager memStore) (NewTaskWithDelay t t dl) w2 = (Some e, w3)"
  shows "Put memStore t d dl w = (Some (Errorf (''add write-back task: '' @ Error e)), w3)
       \<and> cache w3 = cache w1
       \<and> cache w3 = (cache w)(t \<mapsto> (case cache w t of None \<Rightarrow> String d | Some c \<Rightarrow> c))
       \<and> persist w3 = (persist w)(t \<mapsto> Persist True)
       \<and> queue w3 = queue w
       \<and> (faults w OpGetReader t = None \<longrightarrow>
            GetCacheFileReader (fs memStore) t w3
              = (Inr (memFileReader t (case cache w t of None \<Rightarrow> String d | Some c \<Rightarrow> c)), w3))
       \<and> (valid_digest d \<and> cache w t = None \<and> faults w OpGetReader t = None
            \<and> faults w OpRead t = None \<longrightarrow>
            Get memStore t w3 = ((d, None), w3))"
proof -
  let ?content = "case cache w t of None \<Rightarrow> String d | Some c \<Rightarrow> c"
  have p: "Put memStore t d dl w = (Some (Errorf (''add write-back task: '' @ Error e)), w3)"
    by (rule Put_add_failure [OF assms])
  from assms(1) have w1: "faults w1 = faults w" "persist w1 = persist w" "queue w1 = queue w"
    "blobs w1 = blobs w" "cache w1 = cache w \<or> cache w1 = (cache w)(t \<mapsto> String d) \<and> cache w t = None"
    by (auto simp: mem_writeTagToDisk split: option.splits if_splits)
  from assms(2) have w2: "cache w1 t \<noteq> None" "w2 = w1\<lparr>persist := (persist w1)(t \<mapsto> Persist True)\<rparr>"
    by (auto simp: memStore_def memFileStore_def memSetCacheFileMetadata_def NewPersist_def
        split: option.splits)
  from assms(3) have w3: "w3 = w2"
    by (auto simp: memStore_def memRetryManager_def split: option.splits)
  from w1(5) w2(1) have c1: "cache w1 = (cache w)(t \<mapsto> ?content)"
    by (auto simp: fun_upd_idem)
  have c3: "cache w3 = cache w1" by (simp add: w3 w2)
  have f3: "faults w3 = faults w" by (simp add: w3 w2 w1)
  have p3: "persist w3 = (persist w)(t \<mapsto> Persist True)" by (simp add: w3 w2 w1)
  have q3: "queue w3 = queue w" by (simp add: w3 w2(2) w1)
  have rd: "faults w OpGetReader t = None \<Longrightarrow>
     GetCacheFileReader (fs memStore) t w3 = (Inr (memFileReader t ?content), w3)"
    using c1 c3 f3 by (simp add: memStore_def memFileStore_def memGetCacheFileReader_def)
  have g: "valid_digest d \<and> cache w t = None \<and> faults w OpGetReader t = None
            \<and> faults w OpRead t = None \<Longrightarrow> Get memStore t w3 = ((d, None), w3)"
    using c1 c3 f3 Parse_String [of d]
    by (simp add: Get_unfold mem_resolveFromDisk)
  show ?thesis using p c3 c1 p3 q3 rd g by simp
qed

theorem Put_enqueue_failure_witness:
  "fst (writeTagToDisk memStore ''latest'' digest_a (fault_world OpAdd (Errorf ''queue closed'')))
     = None
   \<and> fst (Put memStore ''latest'' digest_a 30 (fault_world OpAdd (Errorf ''queue closed'')))
       = Some (Errorf ''add write-back task: queue closed'')
   \<and> valid_digest digest_a
   \<and> cache (fault_world OpAdd (Errorf ''queue closed'')) ''latest'' = None
   \<and> faults (fault_world OpAdd (Errorf ''queue closed'')) OpGetReader ''latest'' = None
   \<and> faults (fault_world OpAdd (Errorf ''queue closed'')) OpRead ''latest'' = None
   \<and> fst (Get memStore ''latest''
             (snd (Put memStore ''latest'' digest_a 30 (fault_world OpAdd (Errorf ''queue closed'')))))
       = (digest_a, None)"
proof -
  let ?w = "fault_world OpAdd (Errorf ''queue closed'')"
  let ?w1 = "?w\<lparr>cache := [''latest'' \<mapsto> String digest_a]\<rparr>"
  let ?w2 = "?w1\<lparr>persist := [''latest'' \<mapsto> Persist True]\<rparr>"
  have 1: "writeTagToDisk memStore ''latest'' digest_a ?w = (None, ?w1)"
    by (simp add: writeTagToDisk_def mem_defs world_defs)
  have 2: "SetCacheFileMetadata (fs memStore) ''latest'' (NewPersist True) ?w1 = ((True, None), ?w2)"
    by (simp add: mem_defs world_defs NewPersist_def)
  have 3: "Add (writeBackManager memStore) (NewTaskWithDelay ''latest'' ''latest'' 30) ?w2
      = (Some (Errorf ''queue closed''), ?w2)"
    by (simp add: mem_defs world_defs NewTaskWithDelay_def)
  have 4: "cache ?w ''latest'' = None" "faults ?w OpGetReader ''latest'' = None"
    "faults ?w OpRead ''latest'' = None"
    by (simp_all add: world_defs)
  note th = Put_enqueue_failure [OF 1 2 3]
  from th have p: "Put memStore ''latest'' digest_a 30 ?w
      = (Some (Errorf ''add write-back task: queue closed''), ?w2)"
    by simp
  from th 4 valid_digest_a have g: "Get memStore ''latest'' ?w2 = ((digest_a, None), ?w2)"
    by blast
  have 5: "fst (writeTagToDisk memStore ''latest'' digest_a ?w) = None"
    by (simp only: 1 fst_conv)
  have 6: "fst (Get memStore ''latest'' (snd (Put memStore ''latest'' digest_a 30 ?w)))
      = (digest_a, None)"
    by (simp only: p g fst_conv snd_conv)
  have 7: "fst (Put memStore ''latest'' digest_a 30 ?w)
      = Some (Errorf ''add write-back task: queue closed'')"
    by (simp only: p fst_conv)
  from 5 6 7 4 valid_digest_a show ?thesis by blast
qed

subsection \<open>Write-through on a backend hit\<close>

text \<open>
  Claim C9. With collaborators that are well behaved on the tag, when the cache holds no
  entry for the tag and the backend holds content that parses as the digest \<open>d\<close>, \<open>Get\<close>
  returns \<open>d\<close> with no error and leaves the cache with the encoding of \<open>d\<close> under the
  tag, so that the local tier alone then returns \<open>d\<close>, whatever backend manager the
  store holds. And for any collaborators: when the local tier reports not-found, the
  download succeeds and parses as \<open>d'\<close>, and \<open>CreateCacheFile\<close> fails with an error other
  than already-exists, \<open>Get\<close> still returns \<open>d'\<close> with no error; the failure goes to the
  logger and nowhere else.
\<close>

theorem Get_write_through:
  "(cache w t = None \<and> blobs w t = Some b \<and> ParseSHA256Digest b = Inr d \<and> well_behaved w t \<longrightarrow>
      Get memStore t w = ((d, None), w\<lparr>cache := (cache w)(t \<mapsto> String d)\<rparr>)
      \<and> resolveFromDisk memStore t (w\<lparr>cache := (cache w)(t \<mapsto> String d)\<rparr>)
          = ((d, None), w\<lparr>cache := (cache w)(t \<mapsto> String d)\<rparr>)
      \<and> resolveFromDisk (memStore\<lparr>backends := m\<rparr>) t (w\<lparr>cache := (cache w)(t \<mapsto> String d)\<rparr>)
          = ((d, None), w\<lparr>cache := (cache w)(t \<mapsto> String d)\<rparr>))
   \<and> (resolveFromDisk s tag v = ((d0, Some ErrTagNotFound), v1)
       \<and> GetClient (backends s) tag v1 = (Inr c, v2)
       \<and> Download c tag v2 = ((b', None), v3)
       \<and> ParseSHA256Digest b' = Inr d'
       \<and> CreateCacheFile (fs s) tag (String d') v3 = (Some e, v4)
       \<and> \<not> IsExist e \<longrightarrow>
      Get s tag v
        = ((d', None), logger s tag (''Error writing tag to disk: '' @ Error e) v4))"
proof (intro conjI impI)
  assume a: "cache w t = None \<and> blobs w t = Some b \<and> ParseSHA256Digest b = Inr d \<and> well_behaved w t"
  let ?w' = "w\<lparr>cache := (cache w)(t \<mapsto> String d)\<rparr>"
  from a have f: "\<And>operation. faults w operation t = None"
    by (simp add: well_behaved_faults)
  from a have v: "valid_digest d" and sd: "String d = b"
    using Parse_Inr [of b d] by simp_all
  have rd: "resolveFromDisk memStore t w = ((zero_Digest, Some ErrTagNotFound), w)"
    using a f by (simp add: mem_resolveFromDisk)
  have wt: "writeTagToDisk memStore t d w = (None, ?w')"
    using a f by (simp add: mem_writeTagToDisk)
  have rb: "resolveFromBackend memStore t w = ((d, None), ?w')"
    using a f wt by (simp add: mem_resolveFromBackend)
  from rd rb show "Get memStore t w = ((d, None), ?w')"
    by (simp add: Get_unfold)
  show r2: "resolveFromDisk memStore t ?w' = ((d, None), ?w')"
    using f Parse_String [OF v] by (simp add: mem_resolveFromDisk)
  then show "resolveFromDisk (memStore\<lparr>backends := m\<rparr>) t ?w' = ((d, None), ?w')"
    by (simp add: resolveFromDisk_backends)
next
  assume a: "resolveFromDisk s tag v = ((d0, Some ErrTagNotFound), v1)
       \<and> GetClient (backends s) tag v1 = (Inr c, v2)
       \<and> Download c tag v2 = ((b', None), v3)
       \<and> ParseSHA256Digest b' = Inr d'
       \<and> CreateCacheFile (fs s) tag (String d') v3 = (Some e, v4)
       \<and> \<not> IsExist e"
  then have "writeTagToDisk s tag d' v3 = (Some e, v4)"
    by (simp add: writeTagToDisk_def)
  with a have "resolveFromBackend s tag v1
      = ((d', None), logger s tag (''Error writing tag to disk: '' @ Error e) v4)"
    by (simp add: resolveFromBackend_def)
  with a show "Get s tag v
      = ((d', None), logger s tag (''Error writing tag to disk: '' @ Error e) v4)"
    by (simp add: Get_unfold)
qed

theorem Get_write_through_witness:
  "cache backend_world ''latest'' = None
   \<and> blobs backend_world ''latest'' = Some (String digest_a)
   \<and> ParseSHA256Digest (String digest_a) = Inr digest_a
   \<and> well_behaved backend_world ''latest''
   \<and> fst (Get memStore ''latest'' backend_world) = (digest_a, None)
   \<and> fst (resolveFromDisk memStore ''latest'' (snd (Get memStore ''latest'' backend_world)))
       = (digest_a, None)
   \<and> resolveFromDisk memStore ''latest'' full_disk_world
       = ((zero_Digest, Some ErrTagNotFound), full_disk_world)
   \<and> GetClient (backends memStore) ''latest'' full_disk_world = (Inr memClient, full_disk_world)
   \<and> Download memClient ''latest'' full_disk_world = ((String digest_a, None), full_disk_world)
   \<and> CreateCacheFile (fs memStore) ''latest'' (String digest_a) full_disk_world
       = (Some (Errorf ''disk full''), full_disk_world)
   \<and> fst (Get memStore ''latest'' full_disk_world) = (digest_a, None)
   \<and> logs (snd (Get memStore ''latest'' full_disk_world))
       = [(''latest'', ''Error writing tag to disk: disk full'')]
   \<and> cache (snd (Get memStore ''latest'' full_disk_world)) ''latest'' = None"
proof -
  let ?w' = "backend_world\<lparr>cache := (cache backend_world)(''latest'' \<mapsto> String digest_a)\<rparr>"
  have 1: "cache backend_world ''latest'' = None" by (simp add: world_defs)
  have 2: "blobs backend_world ''latest'' = Some (String digest_a)" by (simp add: world_defs)
  have 3: "well_behaved backend_world ''latest''" by (simp add: well_behaved_def world_defs)
  have 4: "resolveFromDisk memStore ''latest'' full_disk_world
       = ((zero_Digest, Some ErrTagNotFound), full_disk_world)"
    by (simp add: mem_resolveFromDisk) (simp add: world_defs)
  have 5: "GetClient (backends memStore) ''latest'' full_disk_world = (Inr memClient, full_disk_world)"
    by (simp add: mem_defs world_defs)
  have 6: "Download memClient ''latest'' full_disk_world = ((String digest_a, None), full_disk_world)"
    by (simp add: mem_defs world_defs)
  have 7: "CreateCacheFile (fs memStore) ''latest'' (String digest_a) full_disk_world
       = (Some (Errorf ''disk full''), full_disk_world)"
    by (simp add: mem_defs world_defs)
  have 8: "\<not> IsExist (Errorf ''disk full'')" by simp
  note th = Get_write_through [where w = backend_world and t = "''latest''"
      and b = "String digest_a" and d = digest_a and s = memStore and tag = "''latest''"
      and v = full_disk_world and ?v1.0 = full_disk_world and ?v2.0 = full_disk_world
      and ?v3.0 = full_disk_world and ?v4.0 = full_disk_world and c = memClient
      and b' = "String digest_a" and d' = digest_a and e = "Errorf ''disk full''"
      and ?d0.0 = zero_Digest and m = memManager]
  from th 1 2 3 Parse_String_digest_a have A: "Get memStore ''latest'' backend_world = ((digest_a, None), ?w')"
    and B: "resolveFromDisk memStore ''latest'' ?w' = ((digest_a, None), ?w')"
    by blast+
  from th 4 5 6 7 8 Parse_String_digest_a have C: "Get memStore ''latest'' full_disk_world
      = ((digest_a, None),
         logger memStore ''latest'' (''Error writing tag to disk: '' @ Error (Errorf ''disk full''))
           full_disk_world)"
    by blast
  have a: "fst (Get memStore ''latest'' backend_world) = (digest_a, None)"
    by (simp only: A fst_conv)
  have b: "fst (resolveFromDisk memStore ''latest'' (snd (Get memStore ''latest'' backend_world)))
       = (digest_a, None)"
    by (simp only: A B fst_conv snd_conv)
  have c: "fst (Get memStore ''latest'' full_disk_world) = (digest_a, None)"
    by (simp only: C fst_conv)
  have d: "logs (snd (Get memStore ''latest'' full_disk_world))
       = [(''latest'', ''Error writing tag to disk: disk full'')]"
    by (simp only: C snd_conv) (simp add: memStore_def memLogger_def world_defs)
  have e: "cache (snd (Get memStore ''latest'' full_disk_world)) ''latest'' = None"
    by (simp only: C snd_conv) (simp add: memStore_def memLogger_def world_defs)
  from 1 2 3 4 5 6 7 Parse_String_digest_a a b c d e show ?thesis by blast
qed

subsection \<open>What Get leaves untouched\<close>

text \<open>
  Claim C10. \<open>Get\<close> does not set persist metadata and does not enqueue a write-back
  task. Over the in-memory collaborators, \<open>Get\<close> leaves the persist metadata, the task
  queue, the backend's blobs and the injected errors as they were, for every tag and
  every state, and the cache is either unchanged or gains, under a tag that had no
  entry, the encoding of the digest \<open>Get\<close> returns. For any collaborators, the outcome of
  \<open>Get\<close> is the same whatever write-back manager and whatever \<open>SetCacheFileMetadata\<close>
  the store holds: neither is called.
\<close>

theorem Get_frame:
  "persist (snd (Get memStore t w)) = persist w
   \<and> queue (snd (Get memStore t w)) = queue w
   \<and> blobs (snd (Get memStore t w)) = blobs w
   \<and> faults (snd (Get memStore t w)) = faults w
   \<and> (cache (snd (Get memStore t w)) = cache w
       \<or> cache w t = None
          \<and> cache (snd (Get memStore t w)) = (cache w)(t \<mapsto> String (fst (fst (Get memStore t w)))))
   \<and> Get (s\<lparr>writeBackManager := m\<rparr>) tag v = Get s tag v
   \<and> Get (s\<lparr>fs := (fs s)\<lparr>SetCacheFileMetadata := f\<rparr>\<rparr>) tag v = Get s tag v"
proof -
  have d: "snd (resolveFromDisk memStore t w) = w" by (rule mem_resolveFromDisk_state)
  have A: "persist (snd (Get memStore t w)) = persist w
   \<and> queue (snd (Get memStore t w)) = queue w
   \<and> blobs (snd (Get memStore t w)) = blobs w
   \<and> faults (snd (Get memStore t w)) = faults w
   \<and> (cache (snd (Get memStore t w)) = cache w
       \<or> cache w t = None
          \<and> cache (snd (Get memStore t w)) = (cache w)(t \<mapsto> String (fst (fst (Get memStore t w)))))"
  proof (cases "snd (fst (resolveFromDisk memStore t w)) = Some ErrTagNotFound")
    case False
    then have "Get memStore t w = resolveFromDisk memStore t w"
      by (auto simp: Get_unfold split: prod.splits)
    with d show ?thesis by simp
  next
    case True
    then have g: "Get memStore t w = resolveFromBackend memStore t w"
      using d by (auto simp: Get_unfold split: prod.splits)
    show ?thesis unfolding g
      by (auto simp: mem_resolveFromBackend mem_writeTagToDisk
          split: option.splits sum.splits if_splits)
  qed
  have wt1: "writeTagToDisk (s\<lparr>writeBackManager := m\<rparr>) = writeTagToDisk s"
    by (simp add: fun_eq_iff writeTagToDisk_def)
  have "resolveFromBackend (s\<lparr>writeBackManager := m\<rparr>) = resolveFromBackend s"
    by (simp add: fun_eq_iff resolveFromBackend_def wt1
        split: prod.splits sum.splits option.splits)
  moreover have "resolveFromDisk (s\<lparr>writeBackManager := m\<rparr>) = resolveFromDisk s"
    by (simp add: fun_eq_iff resolveFromDisk_def)
  ultimately have B: "Get (s\<lparr>writeBackManager := m\<rparr>) tag v = Get s tag v"
    by (simp add: Get_def)
  have wt2: "writeTagToDisk (s\<lparr>fs := (fs s)\<lparr>SetCacheFileMetadata := f\<rparr>\<rparr>) = writeTagToDisk s"
    by (simp add: fun_eq_iff writeTagToDisk_def)
  have "resolveFromBackend (s\<lparr>fs := (fs s)\<lparr>SetCacheFileMetadata := f\<rparr>\<rparr>)
      = resolveFromBackend s"
    by (simp add: fun_eq_iff resolveFromBackend_def wt2
        split: prod.splits sum.splits option.splits)
  moreover have "resolveFromDisk (s\<lparr>fs := (fs s)\<lparr>SetCacheFileMetadata := f\<rparr>\<rparr>)
      = resolveFromDisk s"
    by (simp add: fun_eq_iff resolveFromDisk_def)
  ultimately have C: "Get (s\<lparr>fs := (fs s)\<lparr>SetCacheFileMetadata := f\<rparr>\<rparr>) tag v = Get s tag v"
    by (simp add: Get_def)
  from A B C show ?thesis by blast
qed

theorem Get_frame_witness:
  "fst (Get memStore ''latest'' backend_world) = (digest_a, None)
   \<and> cache (snd (Get memStore ''latest'' backend_world)) ''latest'' = Some (String digest_a)
   \<and> persist (snd (Get memStore ''latest'' backend_world)) ''latest'' = None
   \<and> queue (snd (Get memStore ''latest'' backend_world)) = []"
proof -
  note th = Get_frame [where t = "''latest''" and w = backend_world and s = memStore
      and tag = "''latest''" and v = backend_world and m = memRetryManager
      and f = memSetCacheFileMetadata]
  have g: "Get memStore ''latest'' backend_world
      = ((digest_a, None), backend_world\<lparr>cache := [''latest'' \<mapsto> String digest_a]\<rparr>)"
    using Parse_String [OF valid_digest_a]
    by (simp add: Get_unfold mem_resolveFromDisk mem_resolveFromBackend mem_writeTagToDisk
        world_defs)
  from th have "persist (snd (Get memStore ''latest'' backend_world)) = persist backend_world"
    and "queue (snd (Get memStore ''latest'' backend_world)) = queue backend_world"
    by blast+
  then have "persist (snd (Get memStore ''latest'' backend_world)) ''latest'' = None"
    and "queue (snd (Get memStore ''latest'' backend_world)) = []"
    by (simp_all add: world_defs)
  moreover have "fst (Get memStore ''latest'' backend_world) = (digest_a, None)"
    by (simp only: g fst_conv)
  moreover have "cache (snd (Get memStore ''latest'' backend_world)) ''latest''
      = Some (String digest_a)"
    by (simp only: g snd_conv) simp
  ultimately show ?thesis by blast
qed

end
